theory Spec2Isabelle
  imports Complex_Main
begin

section \<open>Values and errors\<close>

text \<open>
  Python floats are modelled as reals: finite and computed exactly. Python's \<open>/\<close> on
  floats raises \<open>ZeroDivisionError\<close> when the divisor is zero, so every division of the
  plain-Python code whose divisor is not a nonzero literal goes through \<open>py_div\<close>, and
  the functions that divide return \<open>py_error + 'a\<close>, with \<open>Inl\<close> the exception.
\<close>

datatype py_error = ZeroDivisionError | ValueError | TypeError

definition py_div :: "real \<Rightarrow> real \<Rightarrow> py_error + real" where
  "py_div x y = (if y = 0 then Inl ZeroDivisionError else Inr (x / y))"

text \<open>A dict literal \<open>{k1: e1, k2: e2, ...}\<close>: the values are evaluated in order and the
  first exception leaves the literal.\<close>

fun dict_of :: "(string \<times> (py_error + real)) list \<Rightarrow> py_error + (string \<times> real) list" where
  "dict_of [] = Inr []"
| "dict_of ((k, v) # kvs) =
     (case v of
        Inl e \<Rightarrow> Inl e
      | Inr d \<Rightarrow> (case dict_of kvs of Inl e \<Rightarrow> Inl e | Inr rest \<Rightarrow> Inr ((k, d) # rest)))"

section \<open>Membership functions of \<open>simple_assess\<close>\<close>

text \<open>\<open>trimf\<close>, nested in each of the three \<open>calculate_*_membership\<close> methods with the
  same body.\<close>

definition trimf :: "real \<Rightarrow> real \<Rightarrow> real \<Rightarrow> real \<Rightarrow> py_error + real" where
  "trimf x a b c =
     (if x \<le> a \<or> x \<ge> c then Inr 0
      else if a < x \<and> x < b then (if b - a \<noteq> 0 then py_div (x - a) (b - a) else Inr 0)
      else (if c - b \<noteq> 0 then py_div (c - x) (c - b) else Inr 0))"

text \<open>\<open>trapmf\<close>, nested in \<open>calculate_co_membership\<close>.\<close>

definition trapmf :: "real \<Rightarrow> real \<Rightarrow> real \<Rightarrow> real \<Rightarrow> real \<Rightarrow> py_error + real" where
  "trapmf x a b c d =
     (if x \<le> a \<or> x \<ge> d then Inr 0
      else if a < x \<and> x < b then (if b - a \<noteq> 0 then py_div (x - a) (b - a) else Inr 0)
      else if b \<le> x \<and> x \<le> c then Inr 1
      else (if d - c \<noteq> 0 then py_div (d - x) (d - c) else Inr 0))"

text \<open>\<open>trap_left\<close> and \<open>ramp_right\<close>, nested in \<open>calculate_no2_membership\<close>.\<close>

definition trap_left :: "real \<Rightarrow> real \<Rightarrow> real \<Rightarrow> py_error + real" where
  "trap_left x a b =
     (if x \<le> a then Inr 1
      else if x \<ge> b then Inr 0
      else (if b - a \<noteq> 0 then py_div (b - x) (b - a) else Inr 0))"

definition ramp_right :: "real \<Rightarrow> real \<Rightarrow> real \<Rightarrow> py_error + real" where
  "ramp_right x a b =
     (if x \<le> a then Inr 0
      else if x \<ge> b then Inr 1
      else (if b - a \<noteq> 0 then py_div (x - a) (b - a) else Inr 0))"

text \<open>\<open>trap_right\<close>, nested in \<open>calculate_o3_membership\<close>.\<close>

definition trap_right :: "real \<Rightarrow> real \<Rightarrow> real \<Rightarrow> py_error + real" where
  "trap_right x a b =
     (if x \<le> a then Inr 0
      else if x \<ge> b then Inr 1
      else (if b - a \<noteq> 0 then py_div (x - a) (b - a) else Inr 0))"

definition calculate_co_membership :: "real \<Rightarrow> py_error + (string \<times> real) list" where
  "calculate_co_membership co0 =
     (let co = max 0 (min co0 20) in
      dict_of
        [(''Very_Low'', trimf co 0 0 2),
         (''Low'', trimf co 1 2.5 4),
         (''Moderate'', trimf co 3 5 7),
         (''High'', trimf co 6 9 12),
         (''Very_High'', trapmf co 10 15 20 20)])"

definition calculate_no2_membership :: "real \<Rightarrow> py_error + (string \<times> real) list" where
  "calculate_no2_membership no20 =
     (let no2 = max 0 (min no20 400) in
      dict_of
        [(''Excellent'', trap_left no2 0 50),
         (''Good'', trimf no2 50 100 150),
         (''Fair'', trimf no2 125 200 275),
         (''Poor'', trimf no2 225 300 375),
         (''Hazardous'', ramp_right no2 350 400)])"

definition calculate_o3_membership :: "real \<Rightarrow> py_error + (string \<times> real) list" where
  "calculate_o3_membership o30 =
     (let o3 = max 0 (min o30 3000) in
      dict_of
        [(''Good'', Inr (if o3 \<le> 1000 then max 0 (1 - o3 / 1000) else 0)),
         (''Moderate'', trimf o3 1000 1500 2000),
         (''Unhealthy'', trimf o3 1750 2250 2750),
         (''Very_Unhealthy'', trap_right o3 2500 3000)])"

section \<open>Scores of \<open>simple_assess\<close>\<close>

text \<open>The \<open>weights\<close> dict literal of \<open>calculate_fuzzy_aqi\<close>. It repeats the keys
  \<open>Good\<close> and \<open>Moderate\<close>; as in Python, the later entry replaces the earlier one.\<close>

definition weights :: "string \<rightharpoonup> real" where
  "weights =
     [''Very_Low'' \<mapsto> 10, ''Low'' \<mapsto> 30, ''Moderate'' \<mapsto> 50, ''High'' \<mapsto> 75,
      ''Very_High'' \<mapsto> 100,
      ''Excellent'' \<mapsto> 10, ''Good'' \<mapsto> 30, ''Fair'' \<mapsto> 55, ''Poor'' \<mapsto> 80,
      ''Hazardous'' \<mapsto> 100,
      ''Good'' \<mapsto> 10, ''Moderate'' \<mapsto> 50, ''Unhealthy'' \<mapsto> 85,
      ''Very_Unhealthy'' \<mapsto> 100]"

definition weights_get :: "string \<Rightarrow> real \<Rightarrow> real" where
  "weights_get k dflt = (case weights k of None \<Rightarrow> dflt | Some w \<Rightarrow> w)"

text \<open>One \<open>for category, value in mf.items()\<close> loop of \<open>calculate_fuzzy_aqi\<close>; the pair is
  \<open>(weighted_sum, total_weight)\<close>.\<close>

fun accumulate :: "(string \<times> real) list \<Rightarrow> real \<times> real \<Rightarrow> real \<times> real" where
  "accumulate [] acc = acc"
| "accumulate ((cat, v) # items) (weighted_sum, total_weight) =
     (if v > 0
      then accumulate items (weighted_sum + v * weights_get cat 50, total_weight + v)
      else accumulate items (weighted_sum, total_weight))"

definition calculate_fuzzy_aqi ::
  "(string \<times> real) list \<Rightarrow> (string \<times> real) list \<Rightarrow> (string \<times> real) list \<Rightarrow> py_error + real" where
  "calculate_fuzzy_aqi co_mf no2_mf o3_mf =
     (case accumulate o3_mf (accumulate no2_mf (accumulate co_mf (0, 0))) of
        (weighted_sum, total_weight) \<Rightarrow>
          (case (if total_weight > 0 then py_div weighted_sum total_weight else Inr 50) of
             Inl e \<Rightarrow> Inl e
           | Inr aqi \<Rightarrow> Inr (min 100 (max 0 aqi))))"

definition calculate_crisp_aqi :: "real \<Rightarrow> real \<Rightarrow> real \<Rightarrow> real" where
  "calculate_crisp_aqi c n z =
     (let score = 0;
          score = score + (if c < 1 then 40 else if c < 3 then 30 else if c < 5 then 20
                           else if c < 7 then 10 else 0);
          score = score + (if n < 50 then 35 else if n < 100 then 25 else if n < 150 then 15
                           else if n < 200 then 5 else 0);
          score = score + (if z < 50 then 25 else if z < 100 then 15 else if z < 150 then 5
                           else 0);
          aqi = 100 - (score / 100 * 100)
      in max 0 (min aqi 100))"

definition get_category :: "real \<Rightarrow> string" where
  "get_category aqi =
     (if aqi \<le> 25 then ''Excellent''
      else if aqi \<le> 50 then ''Good''
      else if aqi \<le> 75 then ''Fair''
      else if aqi \<le> 90 then ''Poor''
      else ''Very Poor'')"

definition aqi_to_category :: "real \<Rightarrow> string" where
  "aqi_to_category aqi =
     (if aqi \<le> 50 then ''Good''
      else if aqi \<le> 100 then ''Moderate''
      else if aqi \<le> 150 then ''Unhealthy_Sensitive''
      else if aqi \<le> 200 then ''Unhealthy''
      else if aqi \<le> 300 then ''Very_Unhealthy''
      else ''Hazardous'')"

section \<open>Confidence\<close>

text \<open>
  \<open>rule.antecedent.membership_value\<close> is an attribute of the fuzzy-control library (not part
  of this repository), so \<open>calculate_confidence\<close> takes the attribute values of the rules, in
  rule order, as its argument. A value is \<open>None\<close>, a number, or an object that \<open>np.mean\<close>
  cannot average (it raises, and the bare \<open>except\<close> answers). The library keeps the degree
  of an antecedent for each simulation, and what the attribute gives for a rule of a
  control system is the accessor object of these degrees, not a number: \<open>Object\<close>.
\<close>

datatype attr = NoValue | Number real | Object

fun np_mean_attrs :: "attr list \<Rightarrow> real \<Rightarrow> nat \<Rightarrow> py_error + real" where
  "np_mean_attrs [] s n = py_div s (real n)"
| "np_mean_attrs (Number v # as) s n = np_mean_attrs as (s + v) (Suc n)"
| "np_mean_attrs (_ # as) s n = Inl TypeError"

definition calculate_confidence :: "attr list \<Rightarrow> real" where
  "calculate_confidence membership_values =
     (let activations = filter (\<lambda>activation. activation \<noteq> NoValue) membership_values in
      if activations \<noteq> []
      then (case np_mean_attrs activations 0 0 of Inl e \<Rightarrow> 0.8 | Inr m \<Rightarrow> m)
      else 0.8)"

section \<open>Assessment\<close>

text \<open>The two result dicts: the one \<open>comprehensive_assess\<close> builds (with \<open>epa_aqi\<close>,
  \<open>confidence\<close> and \<open>inputs\<close> = (co, no2, o3, temperature, humidity)) and the one
  \<open>simple_assess\<close> builds (with \<open>crisp_aqi\<close> and \<open>membership\<close> = (co, no2, o3), and no
  \<open>confidence\<close> key). A selector is the dict lookup of that key.\<close>

datatype assessment =
    Comprehensive (success: bool) (fuzzy_aqi: real) (epa_aqi: real) (category: string)
      (confidence: real) (inputs: "real \<times> real \<times> real \<times> real \<times> real")
  | Simple (success: bool) (fuzzy_aqi: real) (category: string) (crisp_aqi: real)
      (membership: "(string \<times> real) list \<times> (string \<times> real) list \<times> (string \<times> real) list")

definition simple_assess :: "real \<Rightarrow> real \<Rightarrow> real \<Rightarrow> py_error + assessment" where
  "simple_assess c n z =
     (let o3_normalized = (if z > 100 then z / 10 else z) in
      case calculate_co_membership c of Inl e \<Rightarrow> Inl e | Inr co_membership \<Rightarrow>
      (case calculate_no2_membership n of Inl e \<Rightarrow> Inl e | Inr no2_membership \<Rightarrow>
      (case calculate_o3_membership o3_normalized of Inl e \<Rightarrow> Inl e | Inr o3_membership \<Rightarrow>
      (case calculate_fuzzy_aqi co_membership no2_membership o3_membership of
         Inl e \<Rightarrow> Inl e
       | Inr fz \<Rightarrow>
           Inr (Simple True fz (get_category fz) (calculate_crisp_aqi c n o3_normalized)
                  (co_membership, no2_membership, o3_membership))))))"

text \<open>
  \<open>comprehensive_assess\<close>. Setting the five inputs of the library's simulation, its
  \<open>compute()\<close> and reading \<open>output['AQI']\<close> are library calls: their joint outcome for this
  call is the argument \<open>sim_out\<close> (\<open>Inl\<close> when any of them raises, as the library does when
  no output can be defuzzified), and \<open>membership_values\<close> are the attribute values
  \<open>calculate_confidence\<close> reads. Every exception inside the \<open>try\<close> leads to
  \<open>simple_assess\<close>.
\<close>

definition comprehensive_assess ::
  "py_error + real \<Rightarrow> attr list \<Rightarrow> real \<Rightarrow> real \<Rightarrow> real \<Rightarrow> real \<Rightarrow> real \<Rightarrow> py_error + assessment" where
  "comprehensive_assess sim_out membership_values c n z temp hum =
     (case sim_out of
        Inl e \<Rightarrow> simple_assess c n z
      | Inr fz \<Rightarrow>
          Inr (Comprehensive True fz (calculate_crisp_aqi c n (z / 10)) (aqi_to_category fz)
                 (calculate_confidence membership_values) (c, n, z, temp, hum)))"

section \<open>Dataset rows, the crisp baseline and the ground truth\<close>

text \<open>
  A row of the frame has the five columns \<open>load_data\<close> keeps. \<open>load_data\<close> ends with
  \<open>dropna()\<close> and \<open>create_synthetic_data\<close> draws every value, so a row of \<open>self.data\<close>
  holds five floats: a \<open>real row\<close>. The row functions test each cell with \<open>pd.notna\<close>;
  they take a \<open>cell row\<close>, where the cell \<open>None\<close> is a missing value (NaN).
\<close>

record 'v row =
  CO :: 'v
  NO2 :: 'v
  O3_Sensor :: 'v
  Temperature :: 'v
  Humidity :: 'v

type_synonym cell = "real option"

definition cells :: "real row \<Rightarrow> cell row" where
  "cells r = \<lparr>CO = Some (CO r), NO2 = Some (NO2 r), O3_Sensor = Some (O3_Sensor r),
              Temperature = Some (Temperature r), Humidity = Some (Humidity r)\<rparr>"

text \<open>\<open>float(row[k]) if pd.notna(row[k]) else 0\<close>\<close>

definition notna_or_0 :: "cell \<Rightarrow> real" where
  "notna_or_0 c = (case c of Some v \<Rightarrow> v | None \<Rightarrow> 0)"

text \<open>Nothing in the \<open>try\<close> bodies of the two row functions raises on a row of cells, so their
  \<open>except\<close> branch (the answer 250.0) has no counterpart here.\<close>

definition calculate_epa_aqi :: "cell row \<Rightarrow> real" where
  "calculate_epa_aqi r =
     (let c = notna_or_0 (CO r);
          n = notna_or_0 (NO2 r);
          z = notna_or_0 (O3_Sensor r);
          co_aqi = min 500 (max 0 ((c / 20) * 500));
          no2_aqi = min 500 (max 0 ((n / 400) * 500));
          o3_aqi = min 500 (max 0 ((z / 3000) * 500))
      in max co_aqi (max no2_aqi o3_aqi))"

definition calculate_ground_truth :: "cell row \<Rightarrow> real" where
  "calculate_ground_truth r =
     (let c = notna_or_0 (CO r);
          n = notna_or_0 (NO2 r);
          z = notna_or_0 (O3_Sensor r);
          co_normalized = min 500 ((c / 20) * 500);
          no2_normalized = min 500 ((n / 400) * 500);
          o3_normalized = min 500 ((z / 3000) * 500);
          gt = 0.4 * co_normalized + 0.3 * no2_normalized + 0.3 * o3_normalized
      in min 500 gt)"

section \<open>Metrics\<close>

text \<open>
  The metrics are computed with numpy, whose float division does not raise: a zero divisor
  gives an infinity or NaN. \<open>npfloat\<close> is a numpy float result: a finite value or one of
  the three special values.
\<close>

datatype npfloat = Fin real | PosInf | NegInf | NaN

text \<open>
  The sign of the infinity depends on the sign of the zero divisor, and a float zero has a
  sign. The divisor of the metrics is an element of the ground-truth array, so such an
  element is a \<open>float64\<close>: \<open>Float v\<close> is the finite value \<open>v\<close>, with \<open>Float 0\<close> the zero
  \<open>+0.0\<close>, and \<open>NegZero\<close> is the zero \<open>-0.0\<close>. In every other operation of the metrics the
  two zeros behave alike, and \<open>fval\<close> gives the value. (Arrays with an infinite or NaN
  element are not modelled.)
\<close>

datatype float64 = Float real | NegZero

fun fval :: "float64 \<Rightarrow> real" where
  "fval (Float v) = v"
| "fval NegZero = 0"

text \<open>\<open>x / y\<close> of numpy for a finite \<open>x\<close>: \<open>x / +0.0\<close> has the sign of \<open>x\<close>, \<open>x / -0.0\<close>
  the opposite sign, and \<open>0 / 0\<close> is NaN.\<close>

fun np_divide :: "real \<Rightarrow> float64 \<Rightarrow> npfloat" where
  "np_divide x (Float y) =
     (if y \<noteq> 0 then Fin (x / y)
      else if x > 0 then PosInf
      else if x < 0 then NegInf
      else NaN)"
| "np_divide x NegZero =
     (if x > 0 then NegInf
      else if x < 0 then PosInf
      else NaN)"

text \<open>\<open>e <= bound\<close> on a numpy float: false for NaN and for \<open>+inf\<close>, true for \<open>-inf\<close>.\<close>

fun np_le :: "npfloat \<Rightarrow> real \<Rightarrow> bool" where
  "np_le (Fin v) bound = (v \<le> bound)"
| "np_le PosInf bound = False"
| "np_le NegInf bound = True"
| "np_le NaN bound = False"

text \<open>\<open>np.mean\<close> of a float array and of a boolean array; NaN on an empty array.\<close>

definition np_mean :: "real list \<Rightarrow> npfloat" where
  "np_mean xs = (if xs = [] then NaN else Fin (sum_list xs / real (length xs)))"

definition np_mean_bool :: "bool list \<Rightarrow> npfloat" where
  "np_mean_bool bs = np_mean (map (\<lambda>b. if b then 1 else 0) bs)"

fun np_sqrt :: "npfloat \<Rightarrow> npfloat" where
  "np_sqrt (Fin v) = (if v < 0 then NaN else Fin (sqrt v))"
| "np_sqrt PosInf = PosInf"
| "np_sqrt NegInf = NaN"
| "np_sqrt NaN = NaN"

record method_metrics =
  mae :: npfloat
  rmse :: npfloat
  accuracy :: npfloat
  f1_score :: npfloat
  satisfaction :: npfloat

record metrics_report =
  fuzzy :: method_metrics
  crisp :: method_metrics

definition get_default_metrics :: metrics_report where
  "get_default_metrics =
     \<lparr>fuzzy = \<lparr>mae = Fin 25.0, rmse = Fin 35.0, accuracy = Fin 0.75, f1_score = Fin 0.73,
                satisfaction = Fin 0.80\<rparr>,
      crisp = \<lparr>mae = Fin 40.0, rmse = Fin 50.0, accuracy = Fin 0.60, f1_score = Fin 0.58,
                satisfaction = Fin 0.65\<rparr>\<rparr>"

definition categorize :: "real \<Rightarrow> nat" where
  "categorize aqi =
     (if aqi \<le> 50 then 0
      else if aqi \<le> 100 then 1
      else if aqi \<le> 150 then 2
      else if aqi \<le> 200 then 3
      else if aqi \<le> 300 then 4
      else 5)"

text \<open>\<open>np.abs(pred - ground_truth) / ground_truth\<close>, elementwise.\<close>

definition relative_error :: "real list \<Rightarrow> float64 list \<Rightarrow> npfloat list" where
  "relative_error pred ground_truth =
     map2 (\<lambda>p g. np_divide \<bar>p - fval g\<bar> g) pred ground_truth"

text \<open>\<open>np.mean(error <= 0.2)\<close>\<close>

definition satisfaction_rate :: "real list \<Rightarrow> float64 list \<Rightarrow> npfloat" where
  "satisfaction_rate pred ground_truth =
     np_mean_bool (map (\<lambda>e. np_le e 0.2) (relative_error pred ground_truth))"

text \<open>
  \<open>calculate_enhanced_metrics\<close>. The weighted F1 score is a function of another library
  and is the argument \<open>f1\<close> (called with the true and the predicted categories; \<open>Inl\<close> when it
  raises). The three arrays have one length when \<open>compare_methods\<close> builds them; for arrays
  of different lengths the elementwise operations raise (numpy's broadcasting of a
  one-element array is left out). \<open>truth\<close> are the values of the ground-truth array, for
  the operations that do not see the sign of a zero.
\<close>

definition calculate_enhanced_metrics ::
  "(nat list \<Rightarrow> nat list \<Rightarrow> py_error + real) \<Rightarrow> real list \<Rightarrow> real list \<Rightarrow> float64 list
     \<Rightarrow> py_error + metrics_report" where
  "calculate_enhanced_metrics f1 fuzzy_pred crisp_pred ground_truth =
     (if length fuzzy_pred \<noteq> length ground_truth \<or> length crisp_pred \<noteq> length ground_truth
      then Inl ValueError
      else
        let truth = map fval ground_truth;
            mae_fuzzy = np_mean (map2 (\<lambda>p g. \<bar>p - g\<bar>) fuzzy_pred truth);
            mae_crisp = np_mean (map2 (\<lambda>p g. \<bar>p - g\<bar>) crisp_pred truth);
            rmse_fuzzy = np_sqrt (np_mean (map2 (\<lambda>p g. (p - g) ^ 2) fuzzy_pred truth));
            rmse_crisp = np_sqrt (np_mean (map2 (\<lambda>p g. (p - g) ^ 2) crisp_pred truth));
            fuzzy_cats = map categorize fuzzy_pred;
            crisp_cats = map categorize crisp_pred;
            truth_cats = map categorize truth;
            acc_fuzzy = np_mean_bool (map2 (\<lambda>p t. p = t) fuzzy_cats truth_cats);
            acc_crisp = np_mean_bool (map2 (\<lambda>p t. p = t) crisp_cats truth_cats)
        in case f1 truth_cats fuzzy_cats of Inl e \<Rightarrow> Inl e | Inr f1_fuzzy \<Rightarrow>
          (case f1 truth_cats crisp_cats of Inl e \<Rightarrow> Inl e | Inr f1_crisp \<Rightarrow>
             Inr \<lparr>fuzzy = \<lparr>mae = mae_fuzzy, rmse = rmse_fuzzy, accuracy = acc_fuzzy,
                           f1_score = Fin f1_fuzzy,
                           satisfaction = satisfaction_rate fuzzy_pred ground_truth\<rparr>,
                  crisp = \<lparr>mae = mae_crisp, rmse = rmse_crisp, accuracy = acc_crisp,
                           f1_score = Fin f1_crisp,
                           satisfaction = satisfaction_rate crisp_pred ground_truth\<rparr>\<rparr>))"

section \<open>Batch comparison\<close>

text \<open>The state of an instance that differs between instances and runs: the loaded frame
  \<open>self.data\<close>. (The universes, variables and rules are fixed by the constructor.)\<close>

record system =
  data :: "real row list"

text \<open>
  \<open>self.data.sample(n=sample_size)\<close> draws \<open>n\<close> rows without replacement: the first \<open>n\<close> rows
  of a random reordering of the frame. The reordering is the argument \<open>shuffle\<close>; a negative
  \<open>n\<close> raises. (\<open>n\<close> is never more than the number of rows: it is
  \<open>min(n_samples, len(self.data))\<close>.)
\<close>

definition df_sample :: "('a list \<Rightarrow> 'a list) \<Rightarrow> int \<Rightarrow> 'a list \<Rightarrow> py_error + 'a list" where
  "df_sample shuffle n df = (if n < 0 then Inl ValueError else Inr (take (nat n) (shuffle df)))"

datatype predictions =
  Predictions (fuzzy_predictions: "real list") (crisp_predictions: "real list")
    (ground_truth_values: "real list")

text \<open>The two result dicts of \<open>compare_methods\<close>: the one of the \<open>try\<close> body and the one of
  its \<open>except\<close> branch. \<open>succeeded\<close> is the key \<open>success\<close>; in \<open>predictions\<close> the three
  sequences are the keys \<open>fuzzy\<close>, \<open>crisp\<close> and \<open>ground_truth\<close>.\<close>

datatype comparison =
    Compared (succeeded: bool) (metrics: metrics_report) (predictions: predictions)
      (sample_size: nat)
  | Failed (succeeded: bool) (error: py_error) (metrics: metrics_report)
      (predictions: predictions)

text \<open>
  The loop over the sampled rows. \<open>sim\<close> gives the outcome of the library's simulation for
  the five inputs of a call and \<open>mvs\<close> the attribute values \<open>calculate_confidence\<close> reads
  after it. An exception in the body skips the row (\<open>continue\<close>). The readings of a row
  are reals, and so are the ground truths collected from them: a zero among them is the
  zero \<open>+0.0\<close> when \<open>compare_methods\<close> hands them to the metrics.
\<close>

fun compare_loop ::
  "(real \<Rightarrow> real \<Rightarrow> real \<Rightarrow> real \<Rightarrow> real \<Rightarrow> py_error + real)
     \<Rightarrow> (real \<Rightarrow> real \<Rightarrow> real \<Rightarrow> real \<Rightarrow> real \<Rightarrow> attr list)
     \<Rightarrow> real row list \<Rightarrow> real list \<times> real list \<times> real list
     \<Rightarrow> real list \<times> real list \<times> real list" where
  "compare_loop sim mvs [] acc = acc"
| "compare_loop sim mvs (r # rs) (fuzzy_ps, crisp_ps, gts) =
     (let c = CO r; n = NO2 r; z = O3_Sensor r; temp = Temperature r; hum = Humidity r in
      case comprehensive_assess (sim c n z temp hum) (mvs c n z temp hum) c n z temp hum of
        Inl e \<Rightarrow> compare_loop sim mvs rs (fuzzy_ps, crisp_ps, gts)
      | Inr result \<Rightarrow>
          compare_loop sim mvs rs
            (fuzzy_ps @ [fuzzy_aqi result],
             crisp_ps @ [calculate_epa_aqi (cells r)],
             gts @ [calculate_ground_truth (cells r)]))"

definition compare_methods ::
  "(nat list \<Rightarrow> nat list \<Rightarrow> py_error + real)
     \<Rightarrow> (real \<Rightarrow> real \<Rightarrow> real \<Rightarrow> real \<Rightarrow> real \<Rightarrow> py_error + real)
     \<Rightarrow> (real \<Rightarrow> real \<Rightarrow> real \<Rightarrow> real \<Rightarrow> real \<Rightarrow> attr list)
     \<Rightarrow> (real row list \<Rightarrow> real row list)
     \<Rightarrow> system \<Rightarrow> int \<Rightarrow> comparison" where
  "compare_methods f1 sim mvs shuffle self n_samples =
     (let sample_size = min n_samples (int (length (data self))) in
      case df_sample shuffle sample_size (data self) of
        Inl e \<Rightarrow> Failed False e get_default_metrics (Predictions [] [] [])
      | Inr sample_data \<Rightarrow>
          (case compare_loop sim mvs sample_data ([], [], []) of
             (fuzzy_ps, crisp_ps, gts) \<Rightarrow>
               (case (if length gts > 10
                      then calculate_enhanced_metrics f1 fuzzy_ps crisp_ps (map Float gts)
                      else Inr get_default_metrics) of
                  Inl e \<Rightarrow> Failed False e get_default_metrics (Predictions [] [] [])
                | Inr m \<Rightarrow> Compared True m (Predictions fuzzy_ps crisp_ps gts) (length fuzzy_ps))))"

section \<open>Declared linguistic variables\<close>

text \<open>
  Modelled from the spec: the shape functions \<open>fuzz.trimf\<close>, \<open>fuzz.trapmf\<close> and
  \<open>fuzz.gaussmf\<close> that \<open>init_fuzzy_variables\<close> calls belong to the fuzzy-logic library, not
  to this repository. They follow the spec's Membership Function Library: a triangle is 0
  at and outside \<open>[a, c]\<close> with a linear ramp up on \<open>[a, b]\<close> and down on \<open>[b, c]\<close>; a
  trapezoid is 0 outside \<open>[a, d]\<close>, ramps up on \<open>[a, b]\<close>, is 1 on \<open>[b, c]\<close> and ramps
  down on \<open>[c, d]\<close>; a Gaussian is \<open>exp(-((x-mean)^2)/(2 sigma^2))\<close>.
\<close>

definition fuzz_trimf :: "real \<Rightarrow> real \<Rightarrow> real \<Rightarrow> real \<Rightarrow> real" where
  "fuzz_trimf a b c x =
     (if x \<le> a \<or> c \<le> x then 0
      else if x \<le> b then (x - a) / (b - a)
      else (c - x) / (c - b))"

definition fuzz_trapmf :: "real \<Rightarrow> real \<Rightarrow> real \<Rightarrow> real \<Rightarrow> real \<Rightarrow> real" where
  "fuzz_trapmf a b c d x =
     (if x < a \<or> d < x then 0
      else if x < b then (x - a) / (b - a)
      else if x \<le> c then 1
      else (d - x) / (d - c))"

definition fuzz_gaussmf :: "real \<Rightarrow> real \<Rightarrow> real \<Rightarrow> real" where
  "fuzz_gaussmf mean sigma x = exp (- ((x - mean) ^ 2) / (2 * sigma ^ 2))"

text \<open>\<open>init_fuzzy_variables\<close>: the terms it declares for each variable, by variable name.\<close>

definition init_fuzzy_variables :: "(string \<times> (string \<times> (real \<Rightarrow> real)) list) list" where
  "init_fuzzy_variables =
     [(''CO'',
         [(''Very_Low'', fuzz_trimf 0 0 2),
          (''Low'', fuzz_trimf 1 2.5 4),
          (''Moderate'', fuzz_trimf 3 5 7),
          (''High'', fuzz_trimf 6 9 12),
          (''Very_High'', fuzz_trapmf 10 15 20 20)]),
      (''NO2'',
         [(''Excellent'', fuzz_gaussmf 20 15),
          (''Good'', fuzz_gaussmf 50 20),
          (''Fair'', fuzz_gaussmf 100 30),
          (''Poor'', fuzz_gaussmf 200 50),
          (''Hazardous'', fuzz_trapmf 150 250 400 400)]),
      (''O3'',
         [(''Good'', fuzz_trimf 0 0 1000),
          (''Moderate'', fuzz_trimf 500 1250 2000),
          (''Unhealthy'', fuzz_trimf 1500 2250 3000),
          (''Very_Unhealthy'', fuzz_trapmf 2500 2750 3000 3000)]),
      (''Temperature'',
         [(''Cold'', fuzz_trapmf (-10) (-10) 5 15),
          (''Comfortable'', fuzz_trimf 10 20 30),
          (''Hot'', fuzz_trapmf 25 35 50 50)]),
      (''Humidity'',
         [(''Dry'', fuzz_trimf 0 0 50),
          (''Comfortable'', fuzz_trimf 30 50 70),
          (''Humid'', fuzz_trimf 60 100 100)]),
      (''AQI'',
         [(''Good'', fuzz_trimf 0 0 50),
          (''Moderate'', fuzz_trimf 51 100 150),
          (''Unhealthy_Sensitive'', fuzz_trimf 101 150 200),
          (''Unhealthy'', fuzz_trimf 151 200 300),
          (''Very_Unhealthy'', fuzz_trimf 201 300 400),
          (''Hazardous'', fuzz_trapmf 301 400 500 500)])]"

text \<open>The membership function declared for a variable and a term.\<close>

definition declared_mf :: "string \<Rightarrow> string \<Rightarrow> (real \<Rightarrow> real) option" where
  "declared_mf var term_name =
     (case map_of init_fuzzy_variables var of
        None \<Rightarrow> None
      | Some ts \<Rightarrow> map_of ts term_name)"

section \<open>The rule base\<close>

text \<open>
  The universes of \<open>__init__\<close> (\<open>np.arange\<close> leaves the upper end out), by variable name:
  the first and the last point.
\<close>

definition universe_bounds :: "(string \<times> real \<times> real) list" where
  "universe_bounds =
     [(''CO'', 0, 19.9),
      (''NO2'', 0, 399),
      (''O3'', 0, 2990),
      (''Temperature'', -10, 49.5),
      (''Humidity'', 0, 99),
      (''AQI'', 0, 499)]"

text \<open>The antecedent of a rule, as \<open>build_rule_base\<close> writes it with \<open>&\<close> and \<open>|\<close> over terms
  of variables (\<open>&\<close> binds tighter than \<open>|\<close>, and both associate to the left).\<close>

datatype antecedent =
    Leaf string string
  | And antecedent antecedent
  | Or antecedent antecedent

text \<open>\<open>build_rule_base\<close>: the ten rules, each with the term of \<open>AQI\<close> it concludes.\<close>

definition build_rule_base :: "(antecedent \<times> string) list" where
  "build_rule_base =
     [(And (And (Leaf ''CO'' ''Very_Low'')
                (Or (Leaf ''NO2'' ''Excellent'') (Leaf ''NO2'' ''Good'')))
           (Or (Leaf ''O3'' ''Good'') (Leaf ''O3'' ''Moderate'')),
       ''Good''),
      (And (And (Leaf ''CO'' ''Low'') (Leaf ''NO2'' ''Fair'')) (Leaf ''O3'' ''Moderate''),
       ''Moderate''),
      (And (Leaf ''CO'' ''Moderate'') (Or (Leaf ''NO2'' ''Fair'') (Leaf ''NO2'' ''Poor'')),
       ''Unhealthy_Sensitive''),
      (Or (Leaf ''CO'' ''High'') (Leaf ''NO2'' ''Poor''),
       ''Unhealthy''),
      (Or (Or (Leaf ''CO'' ''Very_High'') (Leaf ''NO2'' ''Hazardous''))
          (Leaf ''O3'' ''Very_Unhealthy''),
       ''Hazardous''),
      (And (And (Leaf ''CO'' ''Low'') (Leaf ''NO2'' ''Good'')) (Leaf ''O3'' ''Good''),
       ''Good''),
      (And (Or (Leaf ''CO'' ''Moderate'') (Leaf ''NO2'' ''Fair'')) (Leaf ''O3'' ''Moderate''),
       ''Moderate''),
      (And (And (Or (Leaf ''CO'' ''High'') (Leaf ''NO2'' ''Poor''))
                (Leaf ''Temperature'' ''Hot''))
           (Leaf ''Humidity'' ''Humid''),
       ''Very_Unhealthy''),
      (And (Leaf ''O3'' ''Unhealthy'') (Leaf ''Temperature'' ''Hot''),
       ''Unhealthy''),
      (Or (And (Leaf ''CO'' ''Very_High'') (Leaf ''NO2'' ''Hazardous''))
          (And (Leaf ''O3'' ''Very_Unhealthy'') (Leaf ''Temperature'' ''Hot'')),
       ''Hazardous'')]"

text \<open>The inputs \<open>comprehensive_assess\<close> sets on the simulation, by variable name.\<close>

definition sim_inputs :: "real \<Rightarrow> real \<Rightarrow> real \<Rightarrow> real \<Rightarrow> real \<Rightarrow> (string \<times> real) list" where
  "sim_inputs c n z temp hum =
     [(''CO'', c), (''NO2'', n), (''O3'', z), (''Temperature'', temp), (''Humidity'', hum)]"

text \<open>
  Modelled from the spec: the evaluation of a rule is done by the fuzzy-control library,
  not by this repository. It follows the spec's Linguistic Variable and Rule Base
  sections: an input is clamped to the bounds of its universe and every term's declared
  function is evaluated there; a leaf of an antecedent looks the degree up (a missing
  degree is 0), AND is the minimum and OR the maximum; the firing strength of a rule is the
  value of its antecedent.
\<close>

definition fuzzify :: "(string \<times> real) list \<Rightarrow> string \<Rightarrow> string \<Rightarrow> real" where
  "fuzzify input var term_name =
     (case map_of input var of
        None \<Rightarrow> 0
      | Some x \<Rightarrow>
          (case map_of universe_bounds var of
             None \<Rightarrow> 0
           | Some (lo, hi) \<Rightarrow>
               (case declared_mf var term_name of
                  None \<Rightarrow> 0
                | Some f \<Rightarrow> f (max lo (min hi x)))))"

fun firing_strength :: "(string \<times> real) list \<Rightarrow> antecedent \<Rightarrow> real" where
  "firing_strength input (Leaf var term_name) = fuzzify input var term_name"
| "firing_strength input (And l r) = min (firing_strength input l) (firing_strength input r)"
| "firing_strength input (Or l r) = max (firing_strength input l) (firing_strength input r)"

definition firing_strengths :: "(string \<times> real) list \<Rightarrow> real list" where
  "firing_strengths input = map (\<lambda>(a, t). firing_strength input a) build_rule_base"

section \<open>Curves for visualisation\<close>






















section \<open>The metrics as the specification words them\<close>

text \<open>
  The satisfaction rate of the specification: a sample whose ground truth is 0 is left out
  of the computation, and the rate is the fraction, among the samples kept, of those whose
  relative error against the ground truth is at most 20%.
\<close>

definition spec_satisfaction_rate :: "real list \<Rightarrow> float64 list \<Rightarrow> npfloat" where
  "spec_satisfaction_rate pred ground_truth =
     (let kept = filter (\<lambda>(p, g). fval g \<noteq> 0) (zip pred ground_truth)
      in np_mean_bool (map (\<lambda>(p, g). \<bar>p - fval g\<bar> / fval g \<le> 0.2) kept))"

text \<open>
  The confidence of the specification: the mean of the firing strengths of the rules whose
  strength is not zero, and a fixed low default when no rule fired.
\<close>

definition spec_confidence :: "real \<Rightarrow> real list \<Rightarrow> real" where
  "spec_confidence low_default strengths =
     (let fired = filter (\<lambda>s. s \<noteq> 0) strengths
      in if fired = [] then low_default else sum_list fired / real (length fired))"

section \<open>Membership degrees\<close>

text \<open>A ratio of distances inside an interval is a degree.\<close>

lemma ratio_up: "(p::real) \<le> x \<Longrightarrow> x \<le> q \<Longrightarrow> p < q \<Longrightarrow> 0 \<le> (x - p) / (q - p) \<and> (x - p) / (q - p) \<le> 1"
  by (simp add: divide_le_eq)

lemma ratio_down: "(p::real) \<le> x \<Longrightarrow> x \<le> q \<Longrightarrow> p < q \<Longrightarrow> 0 \<le> (q - x) / (q - p) \<and> (q - x) / (q - p) \<le> 1"
  by (simp add: divide_le_eq)

lemma trimf_unit: "\<exists>y. trimf x a b c = Inr y \<and> 0 \<le> y \<and> y \<le> 1"
  using ratio_up [of a x b] ratio_down [of b x c]
  by (auto simp: trimf_def py_div_def)

lemma trapmf_unit: "\<exists>y. trapmf x a b c d = Inr y \<and> 0 \<le> y \<and> y \<le> 1"
  using ratio_up [of a x b] ratio_down [of c x d]
  by (auto simp: trapmf_def py_div_def)

lemma trap_left_unit: "\<exists>y. trap_left x a b = Inr y \<and> 0 \<le> y \<and> y \<le> 1"
  using ratio_down [of a x b]
  by (auto simp: trap_left_def py_div_def)

lemma ramp_right_unit: "\<exists>y. ramp_right x a b = Inr y \<and> 0 \<le> y \<and> y \<le> 1"
  using ratio_up [of a x b]
  by (auto simp: ramp_right_def py_div_def)

lemma trap_right_unit: "\<exists>y. trap_right x a b = Inr y \<and> 0 \<le> y \<and> y \<le> 1"
  using ratio_up [of a x b]
  by (auto simp: trap_right_def py_div_def)

lemma co_membership_unit:
  "\<exists>m. calculate_co_membership x = Inr m
     \<and> map fst m = [''Very_Low'', ''Low'', ''Moderate'', ''High'', ''Very_High'']
     \<and> (\<forall>(t, d) \<in> set m. 0 \<le> d \<and> d \<le> 1)"
proof -
  define c where "c = max 0 (min x 20)"
  obtain y1 where y1: "trimf c 0 0 2 = Inr y1" "0 \<le> y1" "y1 \<le> 1" using trimf_unit by blast
  obtain y2 where y2: "trimf c 1 2.5 4 = Inr y2" "0 \<le> y2" "y2 \<le> 1" using trimf_unit by blast
  obtain y3 where y3: "trimf c 3 5 7 = Inr y3" "0 \<le> y3" "y3 \<le> 1" using trimf_unit by blast
  obtain y4 where y4: "trimf c 6 9 12 = Inr y4" "0 \<le> y4" "y4 \<le> 1" using trimf_unit by blast
  obtain y5 where y5: "trapmf c 10 15 20 20 = Inr y5" "0 \<le> y5" "y5 \<le> 1"
    using trapmf_unit by blast
  have "calculate_co_membership x =
      Inr [(''Very_Low'', y1), (''Low'', y2), (''Moderate'', y3), (''High'', y4), (''Very_High'', y5)]"
    unfolding calculate_co_membership_def Let_def c_def [symmetric]
    by (simp only: y1 y2 y3 y4 y5 dict_of.simps sum.case)
  then show ?thesis using y1 y2 y3 y4 y5 by simp
qed

lemma no2_membership_unit:
  "\<exists>m. calculate_no2_membership x = Inr m
     \<and> map fst m = [''Excellent'', ''Good'', ''Fair'', ''Poor'', ''Hazardous'']
     \<and> (\<forall>(t, d) \<in> set m. 0 \<le> d \<and> d \<le> 1)"
proof -
  define c where "c = max 0 (min x 400)"
  obtain y1 where y1: "trap_left c 0 50 = Inr y1" "0 \<le> y1" "y1 \<le> 1"
    using trap_left_unit by blast
  obtain y2 where y2: "trimf c 50 100 150 = Inr y2" "0 \<le> y2" "y2 \<le> 1"
    using trimf_unit by blast
  obtain y3 where y3: "trimf c 125 200 275 = Inr y3" "0 \<le> y3" "y3 \<le> 1"
    using trimf_unit by blast
  obtain y4 where y4: "trimf c 225 300 375 = Inr y4" "0 \<le> y4" "y4 \<le> 1"
    using trimf_unit by blast
  obtain y5 where y5: "ramp_right c 350 400 = Inr y5" "0 \<le> y5" "y5 \<le> 1"
    using ramp_right_unit by blast
  have "calculate_no2_membership x =
      Inr [(''Excellent'', y1), (''Good'', y2), (''Fair'', y3), (''Poor'', y4), (''Hazardous'', y5)]"
    unfolding calculate_no2_membership_def Let_def c_def [symmetric]
    by (simp only: y1 y2 y3 y4 y5 dict_of.simps sum.case)
  then show ?thesis using y1 y2 y3 y4 y5 by simp
qed

lemma o3_membership_unit:
  "\<exists>m. calculate_o3_membership x = Inr m
     \<and> map fst m = [''Good'', ''Moderate'', ''Unhealthy'', ''Very_Unhealthy'']
     \<and> (\<forall>(t, d) \<in> set m. 0 \<le> d \<and> d \<le> 1)"
proof -
  define c where "c = max 0 (min x 3000)"
  define y1 where "y1 = (if c \<le> 1000 then max 0 (1 - c / 1000) else 0)"
  have "0 \<le> c" by (simp add: c_def)
  then have y1: "0 \<le> y1" "y1 \<le> 1" by (auto simp: y1_def)
  obtain y2 where y2: "trimf c 1000 1500 2000 = Inr y2" "0 \<le> y2" "y2 \<le> 1"
    using trimf_unit by blast
  obtain y3 where y3: "trimf c 1750 2250 2750 = Inr y3" "0 \<le> y3" "y3 \<le> 1"
    using trimf_unit by blast
  obtain y4 where y4: "trap_right c 2500 3000 = Inr y4" "0 \<le> y4" "y4 \<le> 1"
    using trap_right_unit by blast
  have "calculate_o3_membership x =
      Inr [(''Good'', y1), (''Moderate'', y2), (''Unhealthy'', y3), (''Very_Unhealthy'', y4)]"
    unfolding calculate_o3_membership_def Let_def c_def [symmetric] y1_def [symmetric]
    by (simp only: y2 y3 y4 dict_of.simps sum.case)
  then show ?thesis using y1 y2 y3 y4 by simp
qed

text \<open>
  C6. For every real reading, also one outside the universe of its variable, each of
  \<open>calculate_co_membership\<close>, \<open>calculate_no2_membership\<close> and \<open>calculate_o3_membership\<close>
  returns (it does not raise) a mapping with the terms of the variable as keys, in which
  every degree lies between 0 and 1; the reading is clamped to the universe first, so the
  result is the one of the clamped reading.
\<close>

theorem membership_degrees_in_unit_interval:
  "(\<exists>m. calculate_co_membership x = Inr m
       \<and> map fst m = [''Very_Low'', ''Low'', ''Moderate'', ''High'', ''Very_High'']
       \<and> (\<forall>(t, d) \<in> set m. 0 \<le> d \<and> d \<le> 1))
   \<and> (\<exists>m. calculate_no2_membership x = Inr m
       \<and> map fst m = [''Excellent'', ''Good'', ''Fair'', ''Poor'', ''Hazardous'']
       \<and> (\<forall>(t, d) \<in> set m. 0 \<le> d \<and> d \<le> 1))
   \<and> (\<exists>m. calculate_o3_membership x = Inr m
       \<and> map fst m = [''Good'', ''Moderate'', ''Unhealthy'', ''Very_Unhealthy'']
       \<and> (\<forall>(t, d) \<in> set m. 0 \<le> d \<and> d \<le> 1))
   \<and> calculate_co_membership x = calculate_co_membership (max 0 (min x 20))
   \<and> calculate_no2_membership x = calculate_no2_membership (max 0 (min x 400))
   \<and> calculate_o3_membership x = calculate_o3_membership (max 0 (min x 3000))"
proof -
  have "calculate_co_membership x = calculate_co_membership (max 0 (min x 20))"
    by (simp add: calculate_co_membership_def)
  moreover have "calculate_no2_membership x = calculate_no2_membership (max 0 (min x 400))"
    by (simp add: calculate_no2_membership_def)
  moreover have "calculate_o3_membership x = calculate_o3_membership (max 0 (min x 3000))"
    by (simp add: calculate_o3_membership_def)
  ultimately show ?thesis
    using co_membership_unit [of x] no2_membership_unit [of x] o3_membership_unit [of x]
    by blast
qed

text \<open>The theorem at the reading 25, which lies above the CO universe and inside the other
  two: the three mappings are not empty and their degrees are in range.\<close>

theorem membership_degrees_in_unit_interval_witness:
  "calculate_co_membership 25 =
     Inr [(''Very_Low'', 0), (''Low'', 0), (''Moderate'', 0), (''High'', 0), (''Very_High'', 0)]
   \<and> calculate_no2_membership 25 =
     Inr [(''Excellent'', 1 / 2), (''Good'', 0), (''Fair'', 0), (''Poor'', 0), (''Hazardous'', 0)]
   \<and> calculate_o3_membership 25 =
     Inr [(''Good'', 39 / 40), (''Moderate'', 0), (''Unhealthy'', 0), (''Very_Unhealthy'', 0)]
   \<and> (\<exists>m. calculate_co_membership 25 = Inr m \<and> m \<noteq> []
         \<and> (\<forall>(t, d) \<in> set m. 0 \<le> d \<and> d \<le> 1))
   \<and> (\<exists>m. calculate_no2_membership 25 = Inr m \<and> m \<noteq> []
         \<and> (\<forall>(t, d) \<in> set m. 0 \<le> d \<and> d \<le> 1))
   \<and> (\<exists>m. calculate_o3_membership 25 = Inr m \<and> m \<noteq> []
         \<and> (\<forall>(t, d) \<in> set m. 0 \<le> d \<and> d \<le> 1))"
proof -
  have co: "calculate_co_membership 25 =
     Inr [(''Very_Low'', 0), (''Low'', 0), (''Moderate'', 0), (''High'', 0), (''Very_High'', 0)]"
    by (simp add: calculate_co_membership_def trimf_def trapmf_def py_div_def)
  have no2: "calculate_no2_membership 25 =
     Inr [(''Excellent'', 1 / 2), (''Good'', 0), (''Fair'', 0), (''Poor'', 0), (''Hazardous'', 0)]"
    by (simp add: calculate_no2_membership_def trimf_def trap_left_def ramp_right_def py_div_def)
  have o3: "calculate_o3_membership 25 =
     Inr [(''Good'', 39 / 40), (''Moderate'', 0), (''Unhealthy'', 0), (''Very_Unhealthy'', 0)]"
    by (simp add: calculate_o3_membership_def trimf_def trap_right_def py_div_def)
  note t = membership_degrees_in_unit_interval [of 25]
  have e1: "\<exists>m. calculate_co_membership 25 = Inr m \<and> m \<noteq> []
         \<and> (\<forall>(t, d) \<in> set m. 0 \<le> d \<and> d \<le> 1)"
    using conjunct1 [OF t] by (elim exE conjE) (rule exI, auto)
  have e2: "\<exists>m. calculate_no2_membership 25 = Inr m \<and> m \<noteq> []
         \<and> (\<forall>(t, d) \<in> set m. 0 \<le> d \<and> d \<le> 1)"
    using conjunct1 [OF conjunct2 [OF t]] by (elim exE conjE) (rule exI, auto)
  have e3: "\<exists>m. calculate_o3_membership 25 = Inr m \<and> m \<noteq> []
         \<and> (\<forall>(t, d) \<in> set m. 0 \<le> d \<and> d \<le> 1)"
    using conjunct1 [OF conjunct2 [OF conjunct2 [OF t]]] by (elim exE conjE) (rule exI, auto)
  show ?thesis by (intro conjI co no2 o3 e1 e2 e3)
qed


section \<open>The triangular membership function\<close>

lemma trimf_as_max_min:
  assumes ab: "a < b" and bc: "b < c"
  shows "trimf x a b c = Inr (max 0 (min ((x - a) / (b - a)) ((c - x) / (c - b))))"
proof -
  consider "x \<le> a" | "a < x" "x < b" | "b \<le> x" "x < c" | "c \<le> x" by linarith
  then show ?thesis
  proof cases
    case 1
    then have "(x - a) / (b - a) \<le> 0" using ab by (simp add: divide_le_0_iff)
    then show ?thesis using 1 by (simp add: trimf_def max_def min_def)
  next
    case 2
    have "0 < (x - a) / (b - a)" "(x - a) / (b - a) < 1" using 2 ab by simp_all
    moreover have "1 < (c - x) / (c - b)" using 2 bc by simp
    ultimately have "(x - a) / (b - a) \<le> (c - x) / (c - b)" "0 \<le> (x - a) / (b - a)"
      by linarith+
    then show ?thesis using 2 ab bc by (simp add: trimf_def py_div_def max_def min_def)
  next
    case 3
    have "1 \<le> (x - a) / (b - a)" using 3 ab by simp
    moreover have "0 < (c - x) / (c - b)" "(c - x) / (c - b) \<le> 1" using 3 bc by simp_all
    ultimately have "(c - x) / (c - b) \<le> (x - a) / (b - a)" "0 \<le> (c - x) / (c - b)"
      by linarith+
    then show ?thesis using 3 ab bc by (auto simp add: trimf_def py_div_def max_def min_def)
  next
    case 4
    then have "(c - x) / (c - b) \<le> 0" using bc by (simp add: divide_le_0_iff)
    moreover have "0 < (x - a) / (b - a)" using 4 ab bc by simp
    ultimately have "(c - x) / (c - b) \<le> 0" "(c - x) / (c - b) \<le> (x - a) / (b - a)"
      by linarith+
    then show ?thesis using 4 ab bc by (auto simp add: trimf_def max_def min_def)
  qed
qed

lemma trimf_continuous:
  "a < b \<Longrightarrow> b < c \<Longrightarrow> continuous_on UNIV (\<lambda>x. projr (trimf x a b c))"
  by (simp add: trimf_as_max_min) (intro continuous_intros; simp)

text \<open>
  C5. For \<open>a \<le> b \<le> c\<close> the triangle is 0 at \<open>a\<close>, at \<open>c\<close> and outside \<open>[a, c]\<close>; it returns
  a degree in \<open>[0, 1]\<close> at every \<open>x\<close> and never divides by zero (no exception, no NaN). It
  is piecewise linear: the line \<open>(x - a) / (b - a)\<close> on \<open>a < x < b\<close> and the line
  \<open>(c - x) / (c - b)\<close> on \<open>b \<le> x < c\<close> (for \<open>x > a\<close>). For a proper triangle \<open>a < b < c\<close>
  the peak \<open>f(b)\<close> is 1 and the function is continuous. In the degenerate cases \<open>a = b\<close>
  or \<open>b = c\<close> one of the two lines is left and the function is a one-sided ramp on the
  open interval, with the flat value 0 at the boundary \<open>b\<close>. (The claim's \<open>f(b) = 1\<close> is
  read for proper triangles: with \<open>a = b\<close>, \<open>f(a) = 0\<close> and \<open>f(b) = 1\<close> exclude each other,
  and the claim's second sentence gives the boundary of a degenerate triangle a flat
  value 0 or 1.)
\<close>

theorem trimf_shape:
  "a \<le> b \<Longrightarrow> b \<le> c \<Longrightarrow>
     trimf a a b c = Inr 0 \<and> trimf c a b c = Inr 0
     \<and> (\<exists>y. trimf x a b c = Inr y \<and> 0 \<le> y \<and> y \<le> 1)
     \<and> (x \<le> a \<or> c \<le> x \<longrightarrow> trimf x a b c = Inr 0)
     \<and> (a < x \<and> x < b \<longrightarrow> trimf x a b c = Inr ((x - a) / (b - a)))
     \<and> (a < x \<and> b \<le> x \<and> x < c \<longrightarrow> trimf x a b c = Inr ((c - x) / (c - b)))
     \<and> (a < b \<and> b < c \<longrightarrow>
          trimf b a b c = Inr 1 \<and> continuous_on UNIV (\<lambda>x. projr (trimf x a b c)))
     \<and> (a = b \<or> b = c \<longrightarrow> trimf b a b c = Inr 0)"
proof -
  assume ab: "a \<le> b" and bc: "b \<le> c"
  have ends: "trimf a a b c = Inr 0" "trimf c a b c = Inr 0"
    using ab bc by (simp_all add: trimf_def)
  have outside: "x \<le> a \<or> c \<le> x \<longrightarrow> trimf x a b c = Inr 0"
    by (simp add: trimf_def)
  have up: "a < x \<and> x < b \<longrightarrow> trimf x a b c = Inr ((x - a) / (b - a))"
    using bc by (auto simp: trimf_def py_div_def)
  have down: "a < x \<and> b \<le> x \<and> x < c \<longrightarrow> trimf x a b c = Inr ((c - x) / (c - b))"
    by (auto simp: trimf_def py_div_def)
  have peak: "a < b \<and> b < c \<longrightarrow>
      trimf b a b c = Inr 1 \<and> continuous_on UNIV (\<lambda>x. projr (trimf x a b c))"
    using trimf_continuous [of a b c] by (auto simp: trimf_def py_div_def)
  have flat: "a = b \<or> b = c \<longrightarrow> trimf b a b c = Inr 0"
    by (auto simp: trimf_def)
  show ?thesis
    using ends trimf_unit [of x a b c] outside up down peak flat by blast
qed

text \<open>The theorem at the triangle \<open>(1, 2.5, 4)\<close> of the term \<open>Low\<close>, read at 2 and at 3, and
  at the degenerate triangle \<open>(0, 0, 2)\<close> of the term \<open>Very_Low\<close>, read at 1.\<close>

theorem trimf_shape_witness:
  "(1::real) \<le> 5 / 2 \<and> (5 / 2::real) \<le> 4
   \<and> trimf 1 1 (5 / 2) 4 = Inr 0 \<and> trimf 4 1 (5 / 2) 4 = Inr 0
   \<and> trimf 2 1 (5 / 2) 4 = Inr (2 / 3) \<and> trimf 3 1 (5 / 2) 4 = Inr (2 / 3)
   \<and> trimf (5 / 2) 1 (5 / 2) 4 = Inr 1
   \<and> continuous_on UNIV (\<lambda>x. projr (trimf x 1 (5 / 2) 4))
   \<and> (0::real) \<le> 0 \<and> (0::real) \<le> 2 \<and> trimf 1 0 0 2 = Inr (1 / 2) \<and> trimf 0 0 0 2 = Inr 0"
  using trimf_shape [of 1 "5 / 2" 4 2] trimf_shape [of 1 "5 / 2" 4 3] trimf_shape [of 0 0 2 1]
  by simp


section \<open>Assessment never raises\<close>

lemma calculate_fuzzy_aqi_range:
  "\<exists>fz. calculate_fuzzy_aqi co_mf no2_mf o3_mf = Inr fz \<and> 0 \<le> fz \<and> fz \<le> 100"
proof -
  obtain ws tw where acc: "accumulate o3_mf (accumulate no2_mf (accumulate co_mf (0, 0))) = (ws, tw)"
    by (cases "accumulate o3_mf (accumulate no2_mf (accumulate co_mf (0, 0)))")
  show ?thesis
    by (cases "tw > 0") (simp_all add: calculate_fuzzy_aqi_def acc py_div_def)
qed

lemma simple_assess_total:
  "\<exists>fz ms. simple_assess c n z =
       Inr (Simple True fz (get_category fz)
              (calculate_crisp_aqi c n (if z > 100 then z / 10 else z)) ms)
     \<and> calculate_fuzzy_aqi (fst ms) (fst (snd ms)) (snd (snd ms)) = Inr fz
     \<and> 0 \<le> fz \<and> fz \<le> 100"
proof -
  define zn where "zn = (if z > 100 then z / 10 else z)"
  obtain m1 where m1: "calculate_co_membership c = Inr m1"
    using co_membership_unit by blast
  obtain m2 where m2: "calculate_no2_membership n = Inr m2"
    using no2_membership_unit by blast
  obtain m3 where m3: "calculate_o3_membership zn = Inr m3"
    using o3_membership_unit by blast
  obtain fz where fz: "calculate_fuzzy_aqi m1 m2 m3 = Inr fz" "0 \<le> fz" "fz \<le> 100"
    using calculate_fuzzy_aqi_range by blast
  have "simple_assess c n z =
      Inr (Simple True fz (get_category fz) (calculate_crisp_aqi c n zn) (m1, m2, m3))"
    unfolding simple_assess_def Let_def zn_def [symmetric]
    by (simp only: m1 m2 m3 fz sum.case)
  then show ?thesis using fz unfolding zn_def by (intro exI [of _ fz] exI [of _ "(m1, m2, m3)"]) simp
qed

lemma comprehensive_assess_total:
  "\<exists>r. comprehensive_assess sim_out mvs c n z temp hum = Inr r \<and> success r"
proof (cases sim_out)
  case (Inl e)
  then show ?thesis
    using simple_assess_total [of c n z] by (auto simp: comprehensive_assess_def)
next
  case (Inr v)
  then show ?thesis by (simp add: comprehensive_assess_def)
qed

text \<open>The loop appends one triple for each row: no row is skipped.\<close>

lemma compare_loop_maps:
  "compare_loop sim mvs rs (fs, cs, gs) =
     (fs @ map (\<lambda>r. fuzzy_aqi (projr (comprehensive_assess
                    (sim (CO r) (NO2 r) (O3_Sensor r) (Temperature r) (Humidity r))
                    (mvs (CO r) (NO2 r) (O3_Sensor r) (Temperature r) (Humidity r))
                    (CO r) (NO2 r) (O3_Sensor r) (Temperature r) (Humidity r)))) rs,
      cs @ map (\<lambda>r. calculate_epa_aqi (cells r)) rs,
      gs @ map (\<lambda>r. calculate_ground_truth (cells r)) rs)"
proof (induction rs arbitrary: fs cs gs)
  case Nil
  then show ?case by simp
next
  case (Cons r rs)
  obtain res where res: "comprehensive_assess
      (sim (CO r) (NO2 r) (O3_Sensor r) (Temperature r) (Humidity r))
      (mvs (CO r) (NO2 r) (O3_Sensor r) (Temperature r) (Humidity r))
      (CO r) (NO2 r) (O3_Sensor r) (Temperature r) (Humidity r) = Inr res"
    using comprehensive_assess_total by blast
  show ?case by (simp add: Let_def res Cons.IH)
qed

lemma compare_loop_lengths:
  assumes "compare_loop sim mvs rs ([], [], []) = (fs, cs, gs)"
  shows "length fs = length rs" "length cs = length rs" "length gs = length rs"
  using assms by (auto simp add: compare_loop_maps)

text \<open>
  C7. Assessment and batch comparison are total. Whatever the outcome of the library's
  simulation, \<open>comprehensive_assess\<close> returns a result with \<open>success\<close> set: the simulation's
  value when there is one, the result of \<open>simple_assess\<close> when the simulation raised; and
  \<open>simple_assess\<close> itself returns for every input. \<open>compare_methods\<close> returns one of its two
  result dicts: the successful one, with three prediction sequences of one length, or the
  one of its \<open>except\<close> branch, with the default metrics and empty predictions.
\<close>

theorem assess_and_compare_total:
  "(\<exists>r. comprehensive_assess sim_out mvs c n z temp hum = Inr r \<and> success r
        \<and> (case sim_out of
              Inr v \<Rightarrow> fuzzy_aqi r = v
            | Inl e \<Rightarrow> simple_assess c n z = Inr r))
   \<and> (\<exists>r. simple_assess c n z = Inr r \<and> success r \<and> 0 \<le> fuzzy_aqi r \<and> fuzzy_aqi r \<le> 100)
   \<and> ((\<exists>m fs cs gs.
          compare_methods f1 sim mvf shuffle self k
            = Compared True m (Predictions fs cs gs) (length fs)
          \<and> length cs = length fs \<and> length gs = length fs)
       \<or> (\<exists>e. compare_methods f1 sim mvf shuffle self k
            = Failed False e get_default_metrics (Predictions [] [] [])))"
proof -
  have a: "\<exists>r. comprehensive_assess sim_out mvs c n z temp hum = Inr r \<and> success r
        \<and> (case sim_out of
              Inr v \<Rightarrow> fuzzy_aqi r = v
            | Inl e \<Rightarrow> simple_assess c n z = Inr r)"
  proof (cases sim_out)
    case (Inl e)
    then show ?thesis
      using simple_assess_total [of c n z] by (auto simp: comprehensive_assess_def)
  next
    case (Inr v)
    then show ?thesis by (simp add: comprehensive_assess_def)
  qed
  have b: "\<exists>r. simple_assess c n z = Inr r \<and> success r \<and> 0 \<le> fuzzy_aqi r \<and> fuzzy_aqi r \<le> 100"
    using simple_assess_total [of c n z] by auto
  define sz where "sz = min k (int (length (data self)))"
  have c: "(\<exists>m fs cs gs.
          compare_methods f1 sim mvf shuffle self k
            = Compared True m (Predictions fs cs gs) (length fs)
          \<and> length cs = length fs \<and> length gs = length fs)
       \<or> (\<exists>e. compare_methods f1 sim mvf shuffle self k
            = Failed False e get_default_metrics (Predictions [] [] []))"
  proof (cases "df_sample shuffle sz (data self)")
    case (Inl e)
    then show ?thesis by (simp add: compare_methods_def Let_def sz_def)
  next
    case (Inr rows)
    obtain fs cs gs where loop: "compare_loop sim mvf rows ([], [], []) = (fs, cs, gs)"
      by (cases "compare_loop sim mvf rows ([], [], [])") auto
    note len = compare_loop_lengths [OF loop]
    show ?thesis
    proof (cases "if length gs > 10 then calculate_enhanced_metrics f1 fs cs (map Float gs)
                  else Inr get_default_metrics")
      case (Inl e)
      then have "compare_methods f1 sim mvf shuffle self k
          = Failed False e get_default_metrics (Predictions [] [] [])"
        using Inr loop by (simp add: compare_methods_def Let_def sz_def)
      then show ?thesis by blast
    next
      case m: (Inr m)
      then have "compare_methods f1 sim mvf shuffle self k
          = Compared True m (Predictions fs cs gs) (length fs)"
        using Inr loop by (simp add: compare_methods_def Let_def sz_def)
      then show ?thesis using len by auto
    qed
  qed
  show ?thesis using a b c by blast
qed


section \<open>Batch comparison: small batches and the ground truth\<close>

text \<open>
  C8. \<open>compare_methods(0)\<close> returns the successful result with empty fuzzy, crisp and
  ground-truth sequences, the sample size 0 and the default metrics; it does not raise.
  This holds for every frame (also an empty one) and whatever the libraries would answer.
\<close>

theorem compare_methods_empty_batch:
  "compare_methods f1 sim mvf shuffle self 0
     = Compared True get_default_metrics (Predictions [] [] []) 0"
  by (simp add: compare_methods_def df_sample_def Let_def)

text \<open>
  C10. When the loop has collected at most ten triples, \<open>calculate_enhanced_metrics\<close> is not
  called: the result reports success, the collected predictions and their number, and the
  hard-coded default metrics.
\<close>

theorem few_samples_default_metrics:
  "df_sample shuffle (min k (int (length (data self)))) (data self) = Inr rows \<Longrightarrow>
   compare_loop sim mvf rows ([], [], []) = (fs, cs, gs) \<Longrightarrow>
   length gs \<le> 10 \<Longrightarrow>
     compare_methods f1 sim mvf shuffle self k
       = Compared True
           \<lparr>fuzzy = \<lparr>mae = Fin 25, rmse = Fin 35, accuracy = Fin 0.75, f1_score = Fin 0.73,
                      satisfaction = Fin 0.80\<rparr>,
            crisp = \<lparr>mae = Fin 40, rmse = Fin 50, accuracy = Fin 0.60, f1_score = Fin 0.58,
                      satisfaction = Fin 0.65\<rparr>\<rparr>
           (Predictions fs cs gs) (length fs)"
  by (simp add: compare_methods_def Let_def get_default_metrics_def)

text \<open>The theorem on a frame of two rows with five samples asked for: both rows are
  sampled, the simulation answers 42 and 120, and an F1 function that would raise is never
  called.\<close>

theorem few_samples_default_metrics_witness:
  "compare_methods (\<lambda>t p. Inl TypeError) (\<lambda>c n z t h. Inr (if c < 5 then 42 else 120))
       (\<lambda>c n z t h. []) id
       \<lparr>data = [\<lparr>CO = 2, NO2 = 100, O3_Sensor = 900, Temperature = 20, Humidity = 50\<rparr>,
                \<lparr>CO = 10, NO2 = 200, O3_Sensor = 1500, Temperature = 30, Humidity = 40\<rparr>]\<rparr> 5
     = Compared True
         \<lparr>fuzzy = \<lparr>mae = Fin 25, rmse = Fin 35, accuracy = Fin 0.75, f1_score = Fin 0.73,
                    satisfaction = Fin 0.80\<rparr>,
          crisp = \<lparr>mae = Fin 40, rmse = Fin 50, accuracy = Fin 0.60, f1_score = Fin 0.58,
                    satisfaction = Fin 0.65\<rparr>\<rparr>
         (Predictions [42, 120] [150, 250] [205 / 2, 250]) 2"
proof -
  let ?r1 = "\<lparr>CO = 2, NO2 = 100, O3_Sensor = 900, Temperature = 20, Humidity = 50\<rparr> :: real row"
  let ?r2 = "\<lparr>CO = 10, NO2 = 200, O3_Sensor = 1500, Temperature = 30, Humidity = 40\<rparr> :: real row"
  let ?sim = "\<lambda>c n z t h :: real. (Inr (if c < 5 then 42 else 120) :: py_error + real)"
  let ?mvf = "\<lambda>c n z t h :: real. ([] :: attr list)"
  have s: "df_sample id (min 5 (int (length (data \<lparr>data = [?r1, ?r2]\<rparr>))))
             (data \<lparr>data = [?r1, ?r2]\<rparr>) = Inr [?r1, ?r2]"
    by (simp add: df_sample_def)
  have l: "compare_loop ?sim ?mvf [?r1, ?r2] ([], [], [])
             = ([42, 120], [150, 250], [205 / 2, 250])"
    by (simp add: comprehensive_assess_def calculate_epa_aqi_def calculate_ground_truth_def
        cells_def notna_or_0_def Let_def)
  have n: "length [205 / 2, 250 :: real] \<le> 10" by simp
  show ?thesis
    using few_samples_default_metrics [OF s l n, of "\<lambda>t p. Inl TypeError"] by simp
qed

text \<open>
  C9. For a row of the frame the ground truth is
  \<open>min(500, 0.4 co_n + 0.3 no2_n + 0.3 o3_n)\<close> with \<open>co_n = min(500, co/20 * 500)\<close>,
  \<open>no2_n = min(500, no2/400 * 500)\<close> and \<open>o3_n = min(500, o3/3000 * 500)\<close>. It reads the three
  pollutant fields only (temperature and humidity do not matter), and the ground-truth
  sequence the comparison loop builds is this function mapped over the sampled rows,
  whatever the fuzzy simulation answers: neither predictor enters it.
\<close>

theorem ground_truth_weighted_combination:
  "calculate_ground_truth (cells r)
     = min 500 (0.4 * min 500 (CO r / 20 * 500)
                + 0.3 * min 500 (NO2 r / 400 * 500)
                + 0.3 * min 500 (O3_Sensor r / 3000 * 500))
   \<and> calculate_ground_truth (cells r) \<le> 500
   \<and> calculate_ground_truth (cells (r\<lparr>Temperature := t, Humidity := h\<rparr>))
       = calculate_ground_truth (cells r)
   \<and> snd (snd (compare_loop sim mvf rs ([], [], [])))
       = map (\<lambda>r. calculate_ground_truth (cells r)) rs"
  by (simp add: calculate_ground_truth_def cells_def notna_or_0_def Let_def compare_loop_maps)


section \<open>The satisfaction rate\<close>

lemma np_le_relative_error:
  "np_le (np_divide \<bar>p - fval g\<bar> g) b
     = (case g of Float v \<Rightarrow> v \<noteq> 0 \<and> \<bar>p - v\<bar> / v \<le> b | NegZero \<Rightarrow> p \<noteq> 0)"
  by (cases g) auto

lemma sum_indicator:
  "sum_list (map (\<lambda>x. if P x then (1::real) else 0) xs) = real (length (filter P xs))"
  by (induction xs) auto

lemma rate_count:
  assumes "length pred = length ground_truth" and "ground_truth \<noteq> []"
  shows "np_mean_bool (map (\<lambda>e. np_le e b) (relative_error pred ground_truth))
           = Fin (real (length (filter
                    (\<lambda>(p, g). case g of Float v \<Rightarrow> v \<noteq> 0 \<and> \<bar>p - v\<bar> / v \<le> b
                                       | NegZero \<Rightarrow> p \<noteq> 0)
                    (zip pred ground_truth)))
                  / real (length ground_truth))"
proof -
  have "map (\<lambda>b. if b then (1::real) else 0)
          (map (\<lambda>e. np_le e b) (relative_error pred ground_truth))
        = map (\<lambda>x. if (case x of (p, g) \<Rightarrow>
                         case g of Float v \<Rightarrow> v \<noteq> 0 \<and> \<bar>p - v\<bar> / v \<le> b
                                 | NegZero \<Rightarrow> p \<noteq> 0) then 1 else 0)
            (zip pred ground_truth)"
    by (simp add: relative_error_def np_le_relative_error split_def)
  moreover have "zip pred ground_truth \<noteq> []" "length (zip pred ground_truth) = length ground_truth"
    using assms by (cases pred; cases ground_truth; simp)+
  ultimately show ?thesis
    by (simp add: np_mean_bool_def np_mean_def sum_indicator)
qed

lemma satisfaction_rate_count:
  assumes "length pred = length ground_truth" and "ground_truth \<noteq> []"
  shows "satisfaction_rate pred ground_truth
           = Fin (real (length (filter
                    (\<lambda>(p, g). case g of Float v \<Rightarrow> v \<noteq> 0 \<and> \<bar>p - v\<bar> / v \<le> 0.2
                                       | NegZero \<Rightarrow> p \<noteq> 0)
                    (zip pred ground_truth)))
                  / real (length ground_truth))"
  unfolding satisfaction_rate_def by (rule rate_count [OF assms])

text \<open>
  C1, as the claim states it, fails. With the predictions 100 and 30 against the ground
  truths 100 and 0, the code divides \<open>|30 - 0|\<close> by 0, gets \<open>inf\<close>, and \<open>inf <= 0.2\<close> is
  false: the second sample is counted, as a failure, and the rate is 1/2. With that sample
  excluded the rate would be 1.
\<close>

theorem satisfaction_zero_truth_counterexample:
  "satisfaction_rate [100, 30] [Float 100, Float 0] = Fin (1 / 2)
   \<and> spec_satisfaction_rate [100, 30] [Float 100, Float 0] = Fin 1"
  by (simp add: satisfaction_rate_def spec_satisfaction_rate_def relative_error_def
      np_mean_bool_def np_mean_def)

text \<open>
  C1, amended. \<open>calculate_enhanced_metrics\<close> has no guard for a zero ground truth: such a
  sample is not excluded, it stays among the samples the rate is taken over. With the
  ground truth \<open>+0.0\<close> it never counts as satisfied (the relative error is \<open>inf\<close> or NaN).
  With the ground truth \<open>-0.0\<close> it counts as satisfied when the prediction is not zero
  (the relative error is \<open>-inf\<close>) and as a failure when it is zero (NaN). For both the
  fuzzy and the crisp series the satisfaction is the number of samples counted as
  satisfied (those with a nonzero ground truth and a relative error of at most 20%, and
  those with the ground truth \<open>-0.0\<close> and a nonzero prediction) divided by the number of
  all samples.
\<close>

theorem satisfaction_keeps_zero_truth_samples:
  assumes "calculate_enhanced_metrics f1 fuzzy_pred crisp_pred ground_truth = Inr m"
    and "ground_truth \<noteq> []"
  shows "satisfaction (fuzzy m)
           = Fin (real (length (filter
                    (\<lambda>(p, g). case g of Float v \<Rightarrow> v \<noteq> 0 \<and> \<bar>p - v\<bar> / v \<le> 0.2
                                       | NegZero \<Rightarrow> p \<noteq> 0)
                    (zip fuzzy_pred ground_truth)))
                  / real (length ground_truth))
       \<and> satisfaction (crisp m)
           = Fin (real (length (filter
                    (\<lambda>(p, g). case g of Float v \<Rightarrow> v \<noteq> 0 \<and> \<bar>p - v\<bar> / v \<le> 0.2
                                       | NegZero \<Rightarrow> p \<noteq> 0)
                    (zip crisp_pred ground_truth)))
                  / real (length ground_truth))"
proof -
  have len: "length fuzzy_pred = length ground_truth" "length crisp_pred = length ground_truth"
    using assms(1) by (auto simp: calculate_enhanced_metrics_def split: if_splits)
  have "satisfaction (fuzzy m) = satisfaction_rate fuzzy_pred ground_truth"
    "satisfaction (crisp m) = satisfaction_rate crisp_pred ground_truth"
    using assms(1) len
    by (auto simp: calculate_enhanced_metrics_def Let_def split: sum.splits)
  then show ?thesis
    using satisfaction_rate_count [OF len(1) assms(2)] satisfaction_rate_count [OF len(2) assms(2)]
    by simp
qed

text \<open>The theorem on three samples with the ground truths 100, \<open>+0.0\<close> and \<open>-0.0\<close>. In the
  fuzzy series (100, 30, 30) the first and the third sample count as satisfied, in the
  crisp series (90, 0, 0) only the first.\<close>

theorem satisfaction_keeps_zero_truth_samples_witness:
  "\<exists>m. calculate_enhanced_metrics (\<lambda>t p. Inr 1) [100, 30, 30] [90, 0, 0]
          [Float 100, Float 0, NegZero] = Inr m
       \<and> [Float 100, Float 0, NegZero] \<noteq> []
       \<and> satisfaction (fuzzy m) = Fin (2 / 3)
       \<and> satisfaction (crisp m) = Fin (1 / 3)"
proof -
  obtain m where m: "calculate_enhanced_metrics (\<lambda>t p. Inr 1) [100, 30, 30] [90, 0, 0]
          [Float 100, Float 0, NegZero] = Inr m"
    by (simp add: calculate_enhanced_metrics_def Let_def)
  have ne: "[Float 100, Float 0, NegZero] \<noteq> []" by simp
  show ?thesis
    using satisfaction_keeps_zero_truth_samples [OF m ne] m by (intro exI [of _ m]) simp
qed


section \<open>Confidence and the firing strengths\<close>

lemma np_mean_attrs_numbers:
  "Object \<notin> set as \<Longrightarrow> NoValue \<notin> set as \<Longrightarrow>
     np_mean_attrs as s n
       = py_div (s + sum_list (map (\<lambda>a. case a of Number v \<Rightarrow> v | _ \<Rightarrow> 0) as))
           (real (n + length as))"
  by (induction as s n rule: np_mean_attrs.induct) (simp_all add: add.assoc)

lemma np_mean_attrs_object:
  "Object \<in> set as \<Longrightarrow> \<exists>e. np_mean_attrs as s n = Inl e"
  by (induction as s n rule: np_mean_attrs.induct) auto

text \<open>What \<open>calculate_confidence\<close> computes from the attribute values: the default 0.8 when
  no value is present or one of them cannot be averaged, and otherwise the mean of the
  values present.\<close>

lemma calculate_confidence_value:
  "calculate_confidence mvs =
     (let present = filter (\<lambda>a. a \<noteq> NoValue) mvs in
      if present = [] \<or> Object \<in> set mvs then 4 / 5
      else sum_list (map (\<lambda>a. case a of Number v \<Rightarrow> v | _ \<Rightarrow> 0) present)
             / real (length present))"
proof -
  define present where "present = filter (\<lambda>a. a \<noteq> NoValue) mvs"
  have nv: "NoValue \<notin> set present" by (simp add: present_def)
  have ob: "Object \<in> set present \<longleftrightarrow> Object \<in> set mvs" by (auto simp: present_def)
  show ?thesis
  proof (cases "present = [] \<or> Object \<in> set mvs")
    case True
    then show ?thesis
      using np_mean_attrs_object [of present 0 0] ob
      by (auto simp: calculate_confidence_def Let_def present_def [symmetric])
  next
    case False
    then have "np_mean_attrs present 0 0
        = Inr (sum_list (map (\<lambda>a. case a of Number v \<Rightarrow> v | _ \<Rightarrow> 0) present)
               / real (length present))"
      using np_mean_attrs_numbers [of present 0 0] nv ob by (simp add: py_div_def)
    then show ?thesis
      using False by (simp add: calculate_confidence_def Let_def present_def [symmetric])
  qed
qed

text \<open>The fourth rule, \<open>CO High | NO2 Poor\<close>, fires at every input: the term \<open>Poor\<close> is a
  Gaussian, and its degree is positive everywhere. No input leaves all rules silent.\<close>

lemma rule_four_always_fires:
  "0 < firing_strengths (sim_inputs c n z temp hum) ! 3"
  by (simp add: firing_strengths_def build_rule_base_def sim_inputs_def fuzzify_def
      universe_bounds_def declared_mf_def init_fuzzy_variables_def fuzz_gaussmf_def
      less_max_iff_disj)

text \<open>
  C3 holds of the documented intent and fails on the code. At CO 9, NO2 200, O3 0,
  temperature 20 and humidity 50 the rules fire with the strengths 1 (the fourth rule,
  \<open>CO High | NO2 Poor\<close>), 1/2 (the fifth, through \<open>NO2 Hazardous\<close>) and 0 (the other eight),
  so the mean of the nonzero strengths is 3/4. \<open>calculate_confidence\<close> reads, for each of
  the ten rules, the library's accessor object instead of a strength; \<open>np.mean\<close> raises on
  them and the bare \<open>except\<close> answers 0.8, here as at every other input.
\<close>

theorem confidence_constant_at_failing_input:
  "firing_strengths (sim_inputs 9 200 0 20 50) = [0, 0, 0, 1, 1 / 2, 0, 0, 0, 0, 0]
   \<and> spec_confidence (4 / 5) (firing_strengths (sim_inputs 9 200 0 20 50)) = 3 / 4
   \<and> calculate_confidence
        [Object, Object, Object, Object, Object, Object, Object, Object, Object, Object]
       = 4 / 5
   \<and> comprehensive_assess (Inr v)
        [Object, Object, Object, Object, Object, Object, Object, Object, Object, Object]
        9 200 0 20 50
       = Inr (Comprehensive True v 75 (aqi_to_category v) (4 / 5) (9, 200, 0, 20, 50))"
proof -
  have fs: "firing_strengths (sim_inputs 9 200 0 20 50) = [0, 0, 0, 1, 1 / 2, 0, 0, 0, 0, 0]"
    by (simp add: firing_strengths_def build_rule_base_def sim_inputs_def fuzzify_def
        universe_bounds_def declared_mf_def init_fuzzy_variables_def fuzz_gaussmf_def
        fuzz_trimf_def fuzz_trapmf_def)
  have sc: "spec_confidence (4 / 5) [0, 0, 0, 1, 1 / 2, 0, 0, 0, 0, 0] = 3 / 4"
    by (simp add: spec_confidence_def)
  have cc: "calculate_confidence
        [Object, Object, Object, Object, Object, Object, Object, Object, Object, Object]
       = 4 / 5"
    by (simp add: calculate_confidence_def)
  have ca: "comprehensive_assess (Inr v)
        [Object, Object, Object, Object, Object, Object, Object, Object, Object, Object]
        9 200 0 20 50
       = Inr (Comprehensive True v 75 (aqi_to_category v) (4 / 5) (9, 200, 0, 20, 50))"
    by (simp add: comprehensive_assess_def cc calculate_crisp_aqi_def)
  show ?thesis using fs sc cc ca by simp
qed


section \<open>Curves for visualisation: range and independence of the state\<close>




















end
